theory Spec2Isabelle
  imports Main "HOL-Library.Multiset"
begin

section \<open>pwfz: search a Passwork vault, pick an entry with fzf, copy its secret\<close>

text \<open>
  A shallow embedding of \<^verbatim>\<open>pwfz.go\<close>. Go strings are byte sequences; they are
  modelled as \<^typ>\<open>string\<close> (a list of 8-bit characters). Go's \<^verbatim>\<open>int\<close> is only compared,
  never computed with, and is modelled as \<^typ>\<open>int\<close>.
\<close>

subsection \<open>The parts of Go's standard library the program calls\<close>

text \<open>\<^verbatim>\<open>strings.Join(elems, sep)\<close>.\<close>

fun Join :: "string list \<Rightarrow> string \<Rightarrow> string" where
  "Join [] sep = []"
| "Join [x] sep = x"
| "Join (x # y # ys) sep = x @ sep @ Join (y # ys) sep"

text \<open>
  \<^verbatim>\<open>strings.TrimSpace\<close> removes leading and trailing white space as defined by Unicode.
  On the bytes of a string this is: strip, as long as there is one, a leading (then a
  trailing) UTF-8 encoding of a white-space code point. The white-space code points are
  U+0009..U+000D, U+0020, U+0085, U+00A0, U+1680, U+2000..U+200A, U+2028, U+2029, U+202F,
  U+205F and U+3000; an invalid byte decodes to U+FFFD, which is not white space.
\<close>

definition asciiSpace :: "char list" where
  "asciiSpace = [CHR 0x09, CHR 0x0A, CHR 0x0B, CHR 0x0C, CHR 0x0D, CHR 0x20]"

definition spaceEncodings :: "string list" where
  "spaceEncodings =
     map (\<lambda>c. [c]) asciiSpace @
     [[CHR 0xC2, CHR 0x85], [CHR 0xC2, CHR 0xA0], [CHR 0xE1, CHR 0x9A, CHR 0x80]] @
     map (\<lambda>c. [CHR 0xE2, CHR 0x80, c])
       [CHR 0x80, CHR 0x81, CHR 0x82, CHR 0x83, CHR 0x84, CHR 0x85, CHR 0x86, CHR 0x87,
        CHR 0x88, CHR 0x89, CHR 0x8A, CHR 0xA8, CHR 0xA9, CHR 0xAF] @
     [[CHR 0xE2, CHR 0x81, CHR 0x9F], [CHR 0xE3, CHR 0x80, CHR 0x80]]"

definition isPrefixOf :: "string \<Rightarrow> string \<Rightarrow> bool" where
  "isPrefixOf p s = (take (length p) s = p)"

text \<open>The length of the white-space encoding the string starts with (0 when there is none).\<close>

definition leadingSpace :: "string list \<Rightarrow> string \<Rightarrow> nat" where
  "leadingSpace encs s = (case filter (\<lambda>e. isPrefixOf e s) encs of [] \<Rightarrow> 0 | e # _ \<Rightarrow> length e)"

function trimLeft :: "string list \<Rightarrow> string \<Rightarrow> string" where
  "trimLeft encs s =
     (if leadingSpace encs s = 0 \<or> s = [] then s
      else trimLeft encs (drop (leadingSpace encs s) s))"
  by pat_completeness auto
termination
  by (relation "measure (\<lambda>(encs, s). length s)") auto

declare trimLeft.simps [simp del]

definition TrimLeftSpace :: "string \<Rightarrow> string" where
  "TrimLeftSpace s = trimLeft spaceEncodings s"

definition TrimRightSpace :: "string \<Rightarrow> string" where
  "TrimRightSpace s = rev (trimLeft (map rev spaceEncodings) (rev s))"

definition TrimSpace :: "string \<Rightarrow> string" where
  "TrimSpace s = TrimRightSpace (TrimLeftSpace s)"

text \<open>
  \<^verbatim>\<open>strings.SplitN(s, "\t", 2)\<close>: the text before the first tab and the text after it, or
  the whole string alone when it has no tab.
\<close>

definition tab :: char where
  "tab = CHR 0x09"

definition SplitN_tab_2 :: "string \<Rightarrow> string list" where
  "SplitN_tab_2 s =
     (if tab \<in> set s then [takeWhile (\<lambda>c. c \<noteq> tab) s, tl (dropWhile (\<lambda>c. c \<noteq> tab) s)]
      else [s])"

text \<open>\<^verbatim>\<open>strings.TrimRight(s, "/")\<close>.\<close>

definition TrimRight_slash :: "string \<Rightarrow> string" where
  "TrimRight_slash s = rev (dropWhile (\<lambda>c. c = CHR ''/'') (rev s))"

subsubsection \<open>\<^verbatim>\<open>encoding/base64\<close>, the standard padded encoding\<close>

definition encodeStd :: string where
  "encodeStd = ''ABCDEFGHIJKLMNOPQRSTUVWXYZabcdefghijklmnopqrstuvwxyz0123456789+/''"

fun indexOf :: "char \<Rightarrow> string \<Rightarrow> nat option" where
  "indexOf c [] = None"
| "indexOf c (x # xs) = (if c = x then Some 0 else map_option Suc (indexOf c xs))"

text \<open>The decode map: the 6-bit value of an alphabet character, nothing for any other byte.\<close>

definition decodeMap :: "char \<Rightarrow> nat option" where
  "decodeMap c = indexOf c encodeStd"

definition encodeChar :: "nat \<Rightarrow> char" where
  "encodeChar n = encodeStd ! (n mod 64)"

definition byte :: "nat \<Rightarrow> char" where
  "byte n = char_of (n mod 256)"

text \<open>
  \<^verbatim>\<open>EncodeToString\<close>: three bytes make a 24-bit value written as four characters; a rest
  of one or two bytes is written as two or three characters and padded with \<^verbatim>\<open>=\<close>.
\<close>

fun EncodeToString :: "string \<Rightarrow> string" where
  "EncodeToString [] = []"
| "EncodeToString [a] =
     (let val = of_char a * 65536 in
      [encodeChar (val div 262144), encodeChar (val div 4096), CHR ''='', CHR ''=''])"
| "EncodeToString [a, b] =
     (let val = of_char a * 65536 + of_char b * 256 in
      [encodeChar (val div 262144), encodeChar (val div 4096), encodeChar (val div 64), CHR ''=''])"
| "EncodeToString (a # b # c # rest) =
     (let val = of_char a * 65536 + of_char b * 256 + of_char c in
      [encodeChar (val div 262144), encodeChar (val div 4096), encodeChar (val div 64),
       encodeChar val] @ EncodeToString rest)"

text \<open>
  Decoding one quantum of four characters after the line breaks have been dropped. The
  last quantum may end in \<^verbatim>\<open>==\<close> or \<^verbatim>\<open>=\<close>; nothing may follow the padding; input that
  ends inside a quantum is corrupt. The standard encoding is not strict: the unused low
  bits of a padded quantum are not checked.
\<close>

fun decodeQuanta :: "string \<Rightarrow> string option" where
  "decodeQuanta [] = Some []"
| "decodeQuanta (a # b # c # d # rest) =
     (case (decodeMap a, decodeMap b) of
        (Some x, Some y) \<Rightarrow>
          (case decodeMap c of
             Some z \<Rightarrow>
               (case decodeMap d of
                  Some u \<Rightarrow>
                    (let val = x * 262144 + y * 4096 + z * 64 + u in
                     map_option (\<lambda>r. [byte (val div 65536), byte (val div 256), byte val] @ r)
                       (decodeQuanta rest))
                | None \<Rightarrow>
                    (if d = CHR ''='' \<and> rest = []
                     then (let val = x * 262144 + y * 4096 + z * 64 in
                           Some [byte (val div 65536), byte (val div 256)])
                     else None))
           | None \<Rightarrow>
               (if c = CHR ''='' \<and> d = CHR ''='' \<and> rest = []
                then (let val = x * 262144 + y * 4096 in Some [byte (val div 65536)])
                else None))
      | _ \<Rightarrow> None)"
| "decodeQuanta _ = None"

datatype error =
    ErrApiKeyNotSet
  | ErrRequest string
  | ErrLoginStatus int string
  | ErrLoginPayload string
  | ErrSearchStatus int string
  | ErrSearchPayload string
  | ErrGetStatus string int string
  | ErrGetPayload string string
  | ErrJsonDecode
  | ErrExec string
  | ErrNoClipboardCommand
  | CorruptInputError

text \<open>
  \<^verbatim>\<open>base64.StdEncoding.DecodeString\<close>: carriage returns and line feeds are skipped
  wherever they stand; any other defect is a \<^verbatim>\<open>CorruptInputError\<close> (its byte offset is
  left out, the program only prints it).
\<close>

definition DecodeString :: "string \<Rightarrow> error + string" where
  "DecodeString s =
     (case decodeQuanta (filter (\<lambda>c. c \<noteq> CHR 0x0A \<and> c \<noteq> CHR 0x0D) s) of
        None \<Rightarrow> Inl CorruptInputError
      | Some b \<Rightarrow> Inr b)"

subsection \<open>Types\<close>

record Config =
  BaseURL :: string
  APIKey :: string

record loginResponse =
  lr_Status :: string
  lr_Token :: string

record passwordSearchHit =
  hit_ID :: string
  hit_Name :: string

record passwordSearchResponse =
  sr_Status :: string
  sr_Data :: "passwordSearchHit list"

record pathSegment =
  seg_Order :: int
  seg_Name :: string
  seg_Type :: string
  seg_ID :: string

record customField =
  cf_Name :: string
  cf_Value :: string
  cf_Type :: string

record attachmentInfo =
  att_Name :: string
  att_ID :: string
  att_EncryptedKey :: string

record passwordDetail =
  VaultID :: string
  ID :: string
  Name :: string
  Login :: string
  URL :: string
  CryptedPassword :: string
  Tags :: "string list"
  Color :: int
  Path :: "pathSegment list"
  Custom :: "customField list"
  Attachments :: "attachmentInfo list"

record passwordGetResponse =
  gr_Status :: string
  gr_Data :: passwordDetail

subsection \<open>The world outside the program\<close>

text \<open>
  What the HTTP client gives back for one request: an error (the request could not be
  built or sent, or timed out), or a response with its status code, its body as text and
  the result of decoding the body as JSON into the expected structure (nothing when the
  decoder fails).
\<close>

datatype 'a reply = RequestError string | Reply int string "'a option"

text \<open>
  The environment of one run. The detail request takes the position of the hit in the
  search result as well, since the server may answer the same request differently the
  second time. A process run yields an error (it could not be started, or it ended with
  a non-zero status) or its standard output.
\<close>

record world =
  Args :: "string list"
  Getenv :: "string \<Rightarrow> string"
  GOOS :: string
  LookPath :: "string \<Rightarrow> bool"
  doLogin :: "string \<Rightarrow> loginResponse reply"
  doSearch :: "string \<Rightarrow> string \<Rightarrow> string \<Rightarrow> passwordSearchResponse reply"
  doGet :: "nat \<Rightarrow> string \<Rightarrow> string \<Rightarrow> passwordGetResponse reply"
  runSelector :: "string list \<Rightarrow> string \<Rightarrow> error + string"
  runClipboard :: "string list \<Rightarrow> string \<Rightarrow> error option"

text \<open>One constructor for each message the program prints, with the values it formats.\<close>

datatype message =
    MsgBaseURLNotSet
  | MsgLoginError error
  | MsgSearchError error
  | MsgNoPasswordsFound string
  | MsgWarningSkip string error
  | MsgNoUsableEntries
  | MsgFzfError error
  | MsgCouldNotFind string
  | MsgEmptyCryptedPassword
  | MsgWarningCannotDecode error
  | MsgClipboardError error
  | MsgCopied string

text \<open>
  What a run does to the outside, in order: HTTP requests (method and URL), lines on
  the error and the output stream, the selector and the clipboard process with their
  arguments and standard input, and a run-time panic.
\<close>

datatype event =
    Request string string
  | Stderr message
  | Stdout message
  | ExecSelector "string list" string
  | ExecClipboard "string list" string
  | Panic

subsection \<open>Formatting helpers\<close>

definition orDash :: "string \<Rightarrow> string" where
  "orDash s = (if TrimSpace s = [] then ''-'' else s)"

definition orEmpty :: "string \<Rightarrow> string" where
  "orEmpty s = (if TrimSpace s = [] then [] else s)"

definition decodeB64OrRaw :: "string \<Rightarrow> string" where
  "decodeB64OrRaw s = (case DecodeString s of Inl err \<Rightarrow> s | Inr b \<Rightarrow> b)"

text \<open>The body of the loop of \<^verbatim>\<open>formatDescription\<close>: what one custom field appends.\<close>

definition descriptionPart :: "customField \<Rightarrow> string list" where
  "descriptionPart c =
     (let name = TrimSpace (decodeB64OrRaw (cf_Name c));
          val = TrimSpace (decodeB64OrRaw (cf_Value c))
      in if name = [] \<and> val = [] then []
         else if name = [] then [val]
         else if val = [] then [name]
         else [name @ ''='' @ val])"

fun descriptionParts :: "string list \<Rightarrow> customField list \<Rightarrow> string list" where
  "descriptionParts parts [] = parts"
| "descriptionParts parts (c # cs) = descriptionParts (parts @ descriptionPart c) cs"

definition formatDescription :: "customField list \<Rightarrow> string" where
  "formatDescription custom =
     (if length custom = 0 then []
      else Join (descriptionParts [] custom) ''; '')"

text \<open>
  \<^verbatim>\<open>formatPath\<close> sorts the slice it is given in place, so the model returns the slice
  as the caller sees it afterwards next to the string. \<^verbatim>\<open>sort.Slice\<close> is not stable and
  Go does not say how it orders segments of equal order; the sorting function is a
  parameter, of which the theorems assume only that it sorts by the order field.
\<close>

type_synonym sorter = "pathSegment list \<Rightarrow> pathSegment list"

fun pathNames :: "string list \<Rightarrow> pathSegment list \<Rightarrow> string list" where
  "pathNames names [] = names"
| "pathNames names (p # ps) =
     pathNames (if seg_Name p \<noteq> [] then names @ [seg_Name p] else names) ps"

definition formatPath :: "sorter \<Rightarrow> pathSegment list \<Rightarrow> string \<times> pathSegment list" where
  "formatPath sortSlice path =
     (if length path = 0 then (''-'', path)
      else (let path' = sortSlice path;
                names = pathNames [] path'
            in if length names = 0 then (''-'', path')
               else (Join names '' / '', path')))"

text \<open>
  \<^verbatim>\<open>buildFzfLine\<close> gets the record by value, but the copy shares the path slice with the
  caller's record: the second component is the caller's record after the call.
\<close>

definition buildFzfLine :: "sorter \<Rightarrow> passwordDetail \<Rightarrow> string \<times> passwordDetail" where
  "buildFzfLine sortSlice p =
     (let name = (if Name p = [] then ''(no title)'' else Name p);
          (pathStr, path') = formatPath sortSlice (Path p);
          desc = formatDescription (Custom p);
          display = name @ '' | '' @ pathStr @ '' | '' @ orEmpty (Login p) @ '' | ''
                    @ orEmpty (URL p) @ '' | '' @ desc
      in (ID p @ [tab] @ display, p\<lparr>Path := path'\<rparr>))"

subsection \<open>HTTP helpers\<close>

definition login :: "world \<Rightarrow> Config \<Rightarrow> event list \<times> (error + string)" where
  "login w cfg =
     (if APIKey cfg = [] then ([], Inl ErrApiKeyNotSet)
      else
        (let url = TrimRight_slash (BaseURL cfg) @ ''/auth/login/'' @ APIKey cfg in
         case doLogin w url of
           RequestError e \<Rightarrow> ([Request ''POST'' url], Inl (ErrRequest e))
         | Reply code body js \<Rightarrow>
             ([Request ''POST'' url],
              if code \<noteq> 200 then Inl (ErrLoginStatus code (take 4096 body))
              else
                (case js of
                   None \<Rightarrow> Inl ErrJsonDecode
                 | Some lr \<Rightarrow>
                     if lr_Status lr \<noteq> ''success'' \<or> lr_Token lr = []
                     then Inl (ErrLoginPayload (lr_Status lr))
                     else Inr (lr_Token lr)))))"

definition searchPasswords ::
  "world \<Rightarrow> Config \<Rightarrow> string \<Rightarrow> string \<Rightarrow> event list \<times> (error + passwordSearchHit list)" where
  "searchPasswords w cfg token query =
     (let url = TrimRight_slash (BaseURL cfg) @ ''/passwords/search'' in
      case doSearch w url token query of
        RequestError e \<Rightarrow> ([Request ''POST'' url], Inl (ErrRequest e))
      | Reply code body js \<Rightarrow>
          ([Request ''POST'' url],
           if code \<noteq> 200 then Inl (ErrSearchStatus code (take 4096 body))
           else
             (case js of
                None \<Rightarrow> Inl ErrJsonDecode
              | Some sr \<Rightarrow>
                  if sr_Status sr \<noteq> ''success'' then Inl (ErrSearchPayload (sr_Status sr))
                  else Inr (sr_Data sr))))"

definition getPassword ::
  "world \<Rightarrow> nat \<Rightarrow> Config \<Rightarrow> string \<Rightarrow> string \<Rightarrow> event list \<times> (error + passwordDetail)" where
  "getPassword w i cfg token ident =
     (let url = TrimRight_slash (BaseURL cfg) @ ''/passwords/'' @ ident in
      case doGet w i url token of
        RequestError e \<Rightarrow> ([Request ''GET'' url], Inl (ErrRequest e))
      | Reply code body js \<Rightarrow>
          ([Request ''GET'' url],
           if code \<noteq> 200 then Inl (ErrGetStatus ident code (take 4096 body))
           else
             (case js of
                None \<Rightarrow> Inl ErrJsonDecode
              | Some gr \<Rightarrow>
                  if gr_Status gr \<noteq> ''success'' then Inl (ErrGetPayload ident (gr_Status gr))
                  else Inr (gr_Data gr))))"

subsection \<open>fzf and clipboard helpers\<close>

definition runFzf :: "world \<Rightarrow> string list \<Rightarrow> event list \<times> (error + string)" where
  "runFzf w lines =
     (let fzf = (if Getenv w ''FZF_BIN'' = [] then ''fzf'' else Getenv w ''FZF_BIN'');
          argv = [fzf, ''--with-nth=2..'', ''--height=15'', ''--style=minimal'', ''--color=dark'',
                  ''--delimiter='' @ [tab]];
          stdin = Join lines [CHR 0x0A]
      in case runSelector w argv stdin of
           Inl err \<Rightarrow> ([ExecSelector argv stdin], Inl err)
         | Inr out \<Rightarrow> ([ExecSelector argv stdin], Inr (TrimSpace out)))"

text \<open>The empty list stands for the nil slice.\<close>

definition detectClipboardCommand :: "world \<Rightarrow> string list" where
  "detectClipboardCommand w =
     (if Getenv w ''CLIP_BIN'' \<noteq> [] then [Getenv w ''CLIP_BIN'']
      else if GOOS w = ''darwin'' then [''pbcopy'']
      else if GOOS w = ''linux'' then
        (if LookPath w ''wl-copy'' then [''wl-copy'']
         else if LookPath w ''xclip'' then [''xclip'', ''-selection'', ''clipboard'']
         else [])
      else [])"

definition copyToClipboard :: "world \<Rightarrow> string \<Rightarrow> event list \<times> error option" where
  "copyToClipboard w text =
     (let cmdArgs = detectClipboardCommand w in
      if cmdArgs = [] then ([], Some ErrNoClipboardCommand)
      else ([ExecClipboard cmdArgs text], runClipboard w cmdArgs text))"

subsection \<open>main\<close>

text \<open>
  A run of \<^verbatim>\<open>main\<close> is its exit code and its events. \<^verbatim>\<open>main\<close> is cut at four
  places; each of the definitions below is the rest of \<^verbatim>\<open>main\<close> from one of them, and
  the earlier part hands its events on with \<open>after\<close>.
\<close>

definition after :: "event list \<Rightarrow> int \<times> event list \<Rightarrow> int \<times> event list" where
  "after evs r = (fst r, evs @ snd r)"

text \<open>From the test for an empty secret to the end.\<close>

definition main_copy :: "world \<Rightarrow> passwordDetail \<Rightarrow> int \<times> event list" where
  "main_copy w chosen =
     (if CryptedPassword chosen = [] then (1, [Stderr MsgEmptyCryptedPassword])
      else
        (let raw = CryptedPassword chosen;
             (warn, raw') =
               (case DecodeString raw of
                  Inl err \<Rightarrow> ([Stderr (MsgWarningCannotDecode err)], raw)
                | Inr decoded \<Rightarrow> ([], decoded));
             (evs, r) = copyToClipboard w raw'
         in case r of
              Some err \<Rightarrow> (1, warn @ evs @ [Stderr (MsgClipboardError err)])
            | None \<Rightarrow> (0, warn @ evs @ [Stdout (MsgCopied (Name chosen))])))"

text \<open>
  From the test for an empty selection. The loop over \<^verbatim>\<open>details\<close> stops at the first
  record with the identifier, which is what \<^const>\<open>find\<close> returns.
\<close>

definition main_select :: "world \<Rightarrow> passwordDetail list \<Rightarrow> string \<Rightarrow> int \<times> event list" where
  "main_select w details selected =
     (if selected = [] then (0, [])
      else
        (case SplitN_tab_2 selected of
           [] \<Rightarrow> (2, [Panic])
         | ident # _ \<Rightarrow>
             (case find (\<lambda>d. ID d = ident) details of
                None \<Rightarrow> (1, [Stderr (MsgCouldNotFind ident)])
              | Some chosen \<Rightarrow> main_copy w chosen)))"

text \<open>
  From the test for an empty detail list. Building the lines sorts the path of every
  record in \<^verbatim>\<open>details\<close> in place.
\<close>

definition main_lines :: "sorter \<Rightarrow> world \<Rightarrow> passwordDetail list \<Rightarrow> int \<times> event list" where
  "main_lines sortSlice w details =
     (if length details = 0 then (0, [Stderr MsgNoUsableEntries])
      else
        (let built = map (buildFzfLine sortSlice) details;
             lines = map fst built;
             details' = map snd built;
             (evs, r) = runFzf w lines
         in case r of
              Inl err \<Rightarrow> (1, evs @ [Stderr (MsgFzfError err)])
            | Inr selected \<Rightarrow> after evs (main_select w details' selected)))"

text \<open>The loop that fetches the details; \<open>i\<close> counts the hits already handled.\<close>

fun fetchDetails ::
  "world \<Rightarrow> Config \<Rightarrow> string \<Rightarrow> nat \<Rightarrow> passwordSearchHit list \<Rightarrow> event list \<times> passwordDetail list" where
  "fetchDetails w cfg token i [] = ([], [])"
| "fetchDetails w cfg token i (h # hs) =
     (let (ev, r) = getPassword w i cfg token (hit_ID h);
          (evs, details) = fetchDetails w cfg token (Suc i) hs
      in case r of
           Inl err \<Rightarrow> (ev @ [Stderr (MsgWarningSkip (hit_ID h) err)] @ evs, details)
         | Inr d \<Rightarrow> (ev @ evs, d # details))"

text \<open>From the test for an empty search result.\<close>

definition main_fetch ::
  "sorter \<Rightarrow> world \<Rightarrow> Config \<Rightarrow> string \<Rightarrow> string \<Rightarrow> passwordSearchHit list \<Rightarrow> int \<times> event list" where
  "main_fetch sortSlice w cfg token query hits =
     (if length hits = 0 then (0, [Stderr (MsgNoPasswordsFound query)])
      else
        (let (evs, details) = fetchDetails w cfg token 0 hits
         in after evs (main_lines sortSlice w details)))"

definition main :: "sorter \<Rightarrow> world \<Rightarrow> int \<times> event list" where
  "main sortSlice w =
     (let query = (if length (Args w) > 1 then Join (tl (Args w)) '' '' else []);
          cfg = \<lparr>BaseURL = Getenv w ''PASSWORK_BASE_URL'', APIKey = Getenv w ''PASSWORK_API_KEY''\<rparr>
      in if BaseURL cfg = [] then (1, [Stderr MsgBaseURLNotSet])
         else
           (case login w cfg of
              (ev1, Inl err) \<Rightarrow> (1, ev1 @ [Stderr (MsgLoginError err)])
            | (ev1, Inr token) \<Rightarrow>
                (case searchPasswords w cfg token query of
                   (ev2, Inl err) \<Rightarrow> (1, ev1 @ ev2 @ [Stderr (MsgSearchError err)])
                 | (ev2, Inr hits) \<Rightarrow>
                     after (ev1 @ ev2) (main_fetch sortSlice w cfg token query hits))))"


subsection \<open>Notions used to state the properties\<close>





text \<open>
  What the theorems assume of \<^verbatim>\<open>sort.Slice\<close> with the comparison of \<^verbatim>\<open>formatPath\<close>: the
  result is a rearrangement of the slice in which no segment has a smaller order than an
  earlier one.
\<close>

definition sortsByOrder :: "sorter \<Rightarrow> bool" where
  "sortsByOrder f = (\<forall>xs. mset (f xs) = mset xs \<and> sorted (map seg_Order (f xs)))"

text \<open>
  One such function: stable insertion sort, which is what \<^verbatim>\<open>sort.Slice\<close> runs on a slice
  of at most twelve elements. It serves to evaluate the program on concrete records.
\<close>

definition insertionSort :: sorter where
  "insertionSort = sort_key seg_Order"

text \<open>The path string of segments that are already in order, as the specification words it.\<close>

definition spec_formatPath :: "pathSegment list \<Rightarrow> string" where
  "spec_formatPath segs =
     (let names = filter (\<lambda>n. n \<noteq> []) (map seg_Name segs)
      in if names = [] then ''-'' else Join names '' / '')"

text \<open>The five columns of a display line.\<close>

definition columns :: "sorter \<Rightarrow> passwordDetail \<Rightarrow> string list" where
  "columns sortSlice p =
     [if Name p = [] then ''(no title)'' else Name p,
      fst (formatPath sortSlice (Path p)),
      orEmpty (Login p),
      orEmpty (URL p),
      formatDescription (Custom p)]"


text \<open>Short names for concrete path segments and records.\<close>

definition seg :: "int \<Rightarrow> string \<Rightarrow> pathSegment" where
  "seg n name = \<lparr>seg_Order = n, seg_Name = name, seg_Type = ''folder'', seg_ID = []\<rparr>"

definition entry :: "string \<Rightarrow> string \<Rightarrow> string \<Rightarrow> passwordDetail" where
  "entry ident name secret =
     \<lparr>VaultID = [], ID = ident, Name = name, Login = [], URL = [], CryptedPassword = secret,
      Tags = [], Color = 0, Path = [], Custom = [], Attachments = []\<rparr>"

text \<open>The kinds of event.\<close>

definition isRequest :: "event \<Rightarrow> bool" where
  "isRequest e = (case e of Request m u \<Rightarrow> True | _ \<Rightarrow> False)"

definition isStderr :: "event \<Rightarrow> bool" where
  "isStderr e = (case e of Stderr m \<Rightarrow> True | _ \<Rightarrow> False)"


definition isClipboard :: "event \<Rightarrow> bool" where
  "isClipboard e = (case e of ExecClipboard a s \<Rightarrow> True | _ \<Rightarrow> False)"

text \<open>The command line of the selector and what it reads for a list of records.\<close>

definition fzfCommand :: "world \<Rightarrow> string list" where
  "fzfCommand w =
     [if Getenv w ''FZF_BIN'' = [] then ''fzf'' else Getenv w ''FZF_BIN'',
      ''--with-nth=2..'', ''--height=15'', ''--style=minimal'', ''--color=dark'',
      ''--delimiter='' @ [tab]]"

definition fzfInput :: "sorter \<Rightarrow> passwordDetail list \<Rightarrow> string" where
  "fzfInput sortSlice details = Join (map (\<lambda>d. fst (buildFzfLine sortSlice d)) details) [CHR 0x0A]"

text \<open>The configuration and the query \<^verbatim>\<open>main\<close> computes from the environment and the arguments.\<close>

definition mainConfig :: "world \<Rightarrow> Config" where
  "mainConfig w = \<lparr>BaseURL = Getenv w ''PASSWORK_BASE_URL'', APIKey = Getenv w ''PASSWORK_API_KEY''\<rparr>"

definition mainQuery :: "world \<Rightarrow> string" where
  "mainQuery w = (if length (Args w) > 1 then Join (tl (Args w)) '' '' else [])"




text \<open>
  A run to evaluate: the search for \<^verbatim>\<open>github\<close> has two hits, the first detail request times
  out, the selector returns the one line it is given, the clipboard command is set in
  the environment and succeeds.
\<close>

definition world0 :: world where
  "world0 =
     \<lparr>Args = [''pwfz'', ''github''],
      Getenv = (\<lambda>k. if k = ''PASSWORK_BASE_URL'' then ''https://vault.test/api/''
                    else if k = ''PASSWORK_API_KEY'' then ''key''
                    else if k = ''CLIP_BIN'' then ''pbcopy'' else []),
      GOOS = ''linux'',
      LookPath = (\<lambda>bin. False),
      doLogin = (\<lambda>url. Reply 200 [] (Some \<lparr>lr_Status = ''success'', lr_Token = ''t0''\<rparr>)),
      doSearch = (\<lambda>url token query. Reply 200 []
        (Some \<lparr>sr_Status = ''success'',
               sr_Data = [\<lparr>hit_ID = ''a1'', hit_Name = ''GitHub old''\<rparr>,
                          \<lparr>hit_ID = ''b2'', hit_Name = ''GitHub''\<rparr>]\<rparr>)),
      doGet = (\<lambda>i url token. if i = 0 then RequestError ''timeout''
        else Reply 200 [] (Some \<lparr>gr_Status = ''success'', gr_Data = entry ''b2'' ''GitHub'' ''aGVsbG8=''\<rparr>)),
      runSelector = (\<lambda>argv stdin. Inr (stdin @ [CHR 0x0A])),
      runClipboard = (\<lambda>argv text. None)\<rparr>"



definition world_offline :: world where
  "world_offline = world0\<lparr>doGet := (\<lambda>i url token. RequestError ''timeout'')\<rparr>"

definition hits0 :: "passwordSearchHit list" where
  "hits0 = [\<lparr>hit_ID = ''a1'', hit_Name = ''GitHub old''\<rparr>, \<lparr>hit_ID = ''b2'', hit_Name = ''GitHub''\<rparr>]"

text \<open>
  Two fetched records with the same identifier, and a run in which the user picks the
  line of the second.
\<close>

definition twins :: "passwordDetail list" where
  "twins = [entry ''b2'' ''first'' ''aGVsbG8='', entry ''b2'' ''second'' ''d29ybGQ='']"

definition world_pick_second :: world where
  "world_pick_second =
     world0\<lparr>runSelector := (\<lambda>argv stdin. Inr (''b2'' @ [tab] @ ''second | - |  |  | '' @ [CHR 0x0A]))\<rparr>"

section \<open>Properties\<close>

subsection \<open>Evaluation on concrete strings\<close>

lemmas trim_eval = TrimSpace_def TrimRightSpace_def TrimLeftSpace_def trimLeft.simps
  leadingSpace_def isPrefixOf_def spaceEncodings_def asciiSpace_def

lemmas b64_eval = DecodeString_def decodeMap_def encodeStd_def byte_def char_of_eq_iff
  take_bit_eq_mod decodeB64OrRaw_def

lemmas line_eval = buildFzfLine_def formatPath_def formatDescription_def descriptionPart_def
  orEmpty_def insertionSort_def entry_def seg_def columns_def tab_def Let_def

subsection \<open>The sample runs, evaluated\<close>

lemma world0_fzf: "fzfCommand world0 = [''fzf'', ''--with-nth=2..'', ''--height=15'', ''--style=minimal'', ''--color=dark'', ''--delimiter='' @ [tab]]"
  by (simp add: fzfCommand_def world0_def)

lemma line_b2: "fst (buildFzfLine insertionSort (entry ''b2'' ''GitHub'' ''aGVsbG8='')) = ''b2'' @ [tab] @ ''GitHub | - |  |  | ''"
  by (simp add: line_eval trim_eval)

lemma input_b2: "fzfInput insertionSort [entry ''b2'' ''GitHub'' ''aGVsbG8=''] = ''b2'' @ [tab] @ ''GitHub | - |  |  | ''"
  by (simp add: fzfInput_def line_b2)


lemma trim_line: "TrimSpace ((''b2'' @ [tab] @ ''GitHub | - |  |  | '') @ [CHR 0x0A]) = ''b2'' @ [tab] @ ''GitHub | - |  |  |''"
  by (simp add: trim_eval tab_def)


lemma config0: "mainConfig world0 = \<lparr>BaseURL = ''https://vault.test/api/'', APIKey = ''key''\<rparr>"
  "mainConfig world_offline = \<lparr>BaseURL = ''https://vault.test/api/'', APIKey = ''key''\<rparr>"
  by (simp_all add: mainConfig_def world0_def world_offline_def)




lemma login0: "login world0 (mainConfig world0) = ([Request ''POST'' ''https://vault.test/api/auth/login/key''], Inr ''t0'')"
  by (simp only: config0) (simp add: login_def world0_def TrimRight_slash_def)

lemma query0: "mainQuery world0 = ''github''"
  by (simp add: mainQuery_def world0_def)

lemma search0: "searchPasswords world0 (mainConfig world0) ''t0'' ''github'' = ([Request ''POST'' ''https://vault.test/api/passwords/search''], Inr hits0)"
  by (simp only: config0) (simp add: searchPasswords_def world0_def TrimRight_slash_def hits0_def)

lemma fetch0: "fetchDetails world0 (mainConfig world0) ''t0'' 0 hits0 =
  ([Request ''GET'' ''https://vault.test/api/passwords/a1'',
    Stderr (MsgWarningSkip ''a1'' (ErrRequest ''timeout'')),
    Request ''GET'' ''https://vault.test/api/passwords/b2''], [entry ''b2'' ''GitHub'' ''aGVsbG8=''])"
  by (simp only: config0) (simp add: hits0_def getPassword_def world0_def Let_def TrimRight_slash_def)

lemma select0: "runSelector world0 c s = Inr (s @ [CHR 0x0A])"
  by (simp add: world0_def)

subsection \<open>Base64: decoding undoes encoding\<close>

lemma indexOf_nth: "distinct xs \<Longrightarrow> n < length xs \<Longrightarrow> indexOf (xs ! n) xs = Some n"
proof (induction xs arbitrary: n)
  case Nil
  then show ?case by simp
next
  case (Cons x xs)
  show ?case
  proof (cases n)
    case 0
    then show ?thesis by simp
  next
    case (Suc m)
    with Cons.prems have "xs ! m \<noteq> x" "distinct xs" "m < length xs" by auto
    with Cons.IH [of m] Suc show ?thesis by simp
  qed
qed

lemma distinct_encodeStd: "distinct encodeStd"
  by (simp add: encodeStd_def)

lemma length_encodeStd: "length encodeStd = 64"
  by (simp add: encodeStd_def)

lemma decodeMap_encodeChar: "decodeMap (encodeChar n) = Some (n mod 64)"
  unfolding decodeMap_def encodeChar_def
  by (rule indexOf_nth [OF distinct_encodeStd]) (simp add: length_encodeStd)

lemma encodeChar_in_alphabet: "encodeChar n \<in> set encodeStd"
  unfolding encodeChar_def by (rule nth_mem) (simp add: length_encodeStd)

lemma encodeChar_not_special:
  "encodeChar n \<noteq> CHR ''=''" "encodeChar n \<noteq> CHR 0x0A" "encodeChar n \<noteq> CHR 0x0D"
  using encodeChar_in_alphabet [of n] by (auto simp: encodeStd_def)

lemma sextets_of_24_bits:
  fixes v :: nat
  assumes "v < 16777216"
  shows "(v div 262144 mod 64) * 262144 + (v div 4096 mod 64) * 4096 + (v div 64 mod 64) * 64 + v mod 64 = v"
proof -
  define v1 where "v1 = v div 64"
  define v2 where "v2 = v div 4096"
  define v3 where "v3 = v div 262144"
  have s1: "v = v1 * 64 + v mod 64" by (simp add: v1_def)
  have "v1 div 64 = v2" by (simp add: v1_def v2_def div_mult2_eq [symmetric])
  then have s2: "v1 = v2 * 64 + v1 mod 64" by (metis div_mult_mod_eq)
  have "v2 div 64 = v3" by (simp add: v2_def v3_def div_mult2_eq [symmetric])
  then have s3: "v2 = v3 * 64 + v2 mod 64" by (metis div_mult_mod_eq)
  have "v3 < 64" using assms by (simp add: v3_def less_mult_imp_div_less)
  then have s4: "v3 mod 64 = v3" by simp
  have "v3 mod 64 * 262144 + v2 mod 64 * 4096 + v1 mod 64 * 64 + v mod 64 = v"
    using s1 s2 s3 s4 by linarith
  then show ?thesis unfolding v1_def v2_def v3_def .
qed

lemma bytes_of_24_bits:
  fixes a b c :: nat
  assumes "a < 256" "b < 256" "c < 256"
  shows "(a * 65536 + b * 256 + c) div 65536 = a"
    and "(a * 65536 + b * 256 + c) div 256 mod 256 = b"
    and "(a * 65536 + b * 256 + c) mod 256 = c"
    and "a * 65536 + b * 256 + c < 16777216"
proof -
  show "(a * 65536 + b * 256 + c) div 65536 = a" using assms by simp
  have "(a * 65536 + b * 256 + c) div 256 = a * 256 + b" using assms by simp
  then show "(a * 65536 + b * 256 + c) div 256 mod 256 = b" using assms by simp
  have "a * 65536 + b * 256 + c = c + (a * 256 + b) * 256" by simp
  then have "(a * 65536 + b * 256 + c) mod 256 = c mod 256" by (simp only: mod_mult_self1)
  then show "(a * 65536 + b * 256 + c) mod 256 = c" using assms by simp
  show "a * 65536 + b * 256 + c < 16777216" using assms by simp
qed

lemma byte_of_char: "byte (of_char c) = c"
  by (simp add: byte_def)

lemma decode_quantum_3:
  fixes a b c :: char
  defines "v \<equiv> of_char a * 65536 + of_char b * 256 + of_char c"
  shows "decodeQuanta (encodeChar (v div 262144) # encodeChar (v div 4096) # encodeChar (v div 64) # encodeChar v # rest)
         = map_option (\<lambda>r. [a, b, c] @ r) (decodeQuanta rest)"
proof -
  have lt: "(of_char a :: nat) < 256" "(of_char b :: nat) < 256" "(of_char c :: nat) < 256" by simp_all
  note B = bytes_of_24_bits [OF lt, folded v_def]
  have S: "(v div 262144 mod 64) * 262144 + (v div 4096 mod 64) * 4096 + (v div 64 mod 64) * 64 + v mod 64 = v"
    by (rule sextets_of_24_bits) (rule B(4))
  have b0: "byte (v div 65536) = a" by (simp only: B(1) byte_of_char)
  have b1: "byte (v div 256) = b" using B(2) by (simp add: byte_def)
  have b2: "byte v = c" using B(3) by (simp add: byte_def)
  show ?thesis
    by (simp only: decodeQuanta.simps decodeMap_encodeChar option.case prod.case Let_def S b0 b1 b2)
qed

lemma decodeMap_pad: "decodeMap (CHR ''='') = None"
  by (simp add: decodeMap_def encodeStd_def)

lemma decode_quantum_2:
  fixes a b :: char
  defines "v \<equiv> of_char a * 65536 + of_char b * 256"
  shows "decodeQuanta [encodeChar (v div 262144), encodeChar (v div 4096), encodeChar (v div 64), CHR ''='']
         = Some [a, b]"
proof -
  have lt: "(of_char a :: nat) < 256" "(of_char b :: nat) < 256" "(0 :: nat) < 256" by simp_all
  have v0: "v = of_char a * 65536 + of_char b * 256 + 0" by (simp add: v_def)
  note B = bytes_of_24_bits [OF lt, folded v0]
  have "v mod 64 = 0" by (simp add: v_def)
  with sextets_of_24_bits [OF B(4)]
  have S: "(v div 262144 mod 64) * 262144 + (v div 4096 mod 64) * 4096 + (v div 64 mod 64) * 64 = v"
    by (simp only: add_0_right)
  have b0: "byte (v div 65536) = a" by (simp only: B(1) byte_of_char)
  have b1: "byte (v div 256) = b" using B(2) by (simp add: byte_def)
  show ?thesis
    by (simp only: decodeQuanta.simps decodeMap_encodeChar decodeMap_pad option.case prod.case
          Let_def S b0 b1 simp_thms if_True)
qed

lemma decode_quantum_1:
  fixes a :: char
  defines "v \<equiv> of_char a * 65536"
  shows "decodeQuanta [encodeChar (v div 262144), encodeChar (v div 4096), CHR ''='', CHR ''='']
         = Some [a]"
proof -
  have lt: "(of_char a :: nat) < 256" "(0 :: nat) < 256" by simp_all
  have v0: "v = of_char a * 65536 + 0 * 256 + 0" by (simp add: v_def)
  note B = bytes_of_24_bits [OF lt(1) lt(2) lt(2), folded v0]
  have "v mod 64 = 0" "v div 64 mod 64 = 0" by (simp_all add: v_def)
  with sextets_of_24_bits [OF B(4)]
  have S: "(v div 262144 mod 64) * 262144 + (v div 4096 mod 64) * 4096 = v"
    by (simp only: add_0_right mult_zero_left)
  have b0: "byte (v div 65536) = a" by (simp only: B(1) byte_of_char)
  show ?thesis
    by (simp only: decodeQuanta.simps decodeMap_encodeChar decodeMap_pad option.case prod.case
          Let_def S b0 simp_thms if_True)
qed

lemma decodeQuanta_EncodeToString: "decodeQuanta (EncodeToString s) = Some s"
proof (induction s rule: EncodeToString.induct)
  case 1
  show ?case by simp
next
  case (2 a)
  show ?case by (simp only: EncodeToString.simps Let_def decode_quantum_1)
next
  case (3 a b)
  show ?case by (simp only: EncodeToString.simps Let_def decode_quantum_2)
next
  case (4 a b c rest)
  show ?case
    by (simp only: EncodeToString.simps Let_def append_Cons append_Nil decode_quantum_3 "4.IH"
          option.map)
qed

lemma EncodeToString_no_line_breaks:
  "filter (\<lambda>c. c \<noteq> CHR 0x0A \<and> c \<noteq> CHR 0x0D) (EncodeToString s) = EncodeToString s"
  by (induction s rule: EncodeToString.induct) (simp_all add: Let_def encodeChar_not_special)

lemma DecodeString_EncodeToString: "DecodeString (EncodeToString s) = Inr s"
  by (simp add: DecodeString_def EncodeToString_no_line_breaks decodeQuanta_EncodeToString)

text \<open>
  C6: encoding a string with the standard base64 encoding and passing the result through
  the decode step of the formatter gives the string back; an input that does not decode
  comes back unchanged (the decode step is a total function, nothing is raised).
\<close>

theorem decodeB64OrRaw_roundtrip:
  "decodeB64OrRaw (EncodeToString s) = s
   \<and> (isl (DecodeString m) \<longrightarrow> decodeB64OrRaw m = m)"
  by (auto simp: decodeB64OrRaw_def DecodeString_EncodeToString split: sum.splits)

theorem decodeB64OrRaw_roundtrip_witness:
  "isl (DecodeString ''a!b'') \<and> decodeB64OrRaw ''a!b'' = ''a!b''
   \<and> decodeB64OrRaw (EncodeToString ''hello'') = ''hello''"
proof -
  have h: "isl (DecodeString ''a!b'')" by (simp add: b64_eval)
  from decodeB64OrRaw_roundtrip [of "''hello''" "''a!b''"] h show ?thesis by blast
qed

subsection \<open>The description column\<close>











subsection \<open>The path column\<close>

lemma sortsByOrder_insertionSort: "sortsByOrder insertionSort"
  by (simp add: sortsByOrder_def insertionSort_def)

lemma sortsByOrder_Nil: "sortsByOrder f \<Longrightarrow> f [] = []"
  by (metis mset_zero_iff sortsByOrder_def)

lemma pathNames_filter: "pathNames names ps = names @ filter (\<lambda>n. n \<noteq> []) (map seg_Name ps)"
  by (induction ps arbitrary: names) simp_all

lemma formatPath_string: "path \<noteq> [] \<Longrightarrow> fst (formatPath f path) = spec_formatPath (f path)"
  by (simp add: formatPath_def spec_formatPath_def pathNames_filter Let_def)

lemma formatPath_Nil: "formatPath f [] = (''-'', [])"
  by (simp add: formatPath_def)

lemma sorted_by_order_unique:
  assumes f: "sortsByOrder f" and p: "mset path' = mset path" and d: "distinct (map seg_Order path)"
  shows "f path' = f path"
proof (rule map_sorted_distinct_set_unique [where f = seg_Order])
  have m: "mset (f path') = mset path" "mset (f path) = mset path"
    using f p by (simp_all add: sortsByOrder_def)
  have s: "set (f path') = set path" "set (f path) = set path"
    using m by (metis set_mset_mset)+
  from d have "inj_on seg_Order (set path)" by (simp add: distinct_map)
  then show "inj_on seg_Order (set (f path') \<union> set (f path))" using s by simp
  show "sorted (map seg_Order (f path'))" "sorted (map seg_Order (f path))"
    using f by (simp_all add: sortsByOrder_def)
  have "mset (map seg_Order (f path')) = mset (map seg_Order path)"
       "mset (map seg_Order (f path)) = mset (map seg_Order path)"
    using m by (metis mset_map)+
  then show "distinct (map seg_Order (f path'))" "distinct (map seg_Order (f path))"
    using d by (metis mset_eq_imp_distinct_iff)+
  show "set (f path') = set (f path)" using s by simp
qed

text \<open>
  C5: the path string is made of the non-empty names of the segments in ascending order
  of their order field, joined with \<^verbatim>\<open> / \<close>, whatever the order of the input (the sorted
  slice is a rearrangement of the input, and with distinct order values every
  rearrangement of the input gives the same string); with no segment, or with no
  non-empty name, it is a single dash.
\<close>

theorem formatPath_sorted_names:
  assumes "sortsByOrder sortSlice"
  shows "fst (formatPath sortSlice path) = spec_formatPath (sortSlice path)
         \<and> mset (sortSlice path) = mset path
         \<and> sorted (map seg_Order (sortSlice path))
         \<and> (mset path' = mset path \<and> distinct (map seg_Order path)
              \<longrightarrow> fst (formatPath sortSlice path') = fst (formatPath sortSlice path))
         \<and> (filter (\<lambda>n. n \<noteq> []) (map seg_Name path) = []
              \<longrightarrow> fst (formatPath sortSlice path) = ''-'')"
proof -
  have a: "fst (formatPath sortSlice q) = spec_formatPath (sortSlice q)" for q
    using assms by (cases q) (simp_all add: formatPath_string formatPath_Nil sortsByOrder_Nil spec_formatPath_def)
  have b: "mset (sortSlice path) = mset path" "sorted (map seg_Order (sortSlice path))"
    using assms by (simp_all add: sortsByOrder_def)
  have c: "fst (formatPath sortSlice path') = fst (formatPath sortSlice path)"
    if "mset path' = mset path" "distinct (map seg_Order path)"
    using sorted_by_order_unique [OF assms that] by (simp add: a)
  have d: "fst (formatPath sortSlice path) = ''-''"
    if "filter (\<lambda>n. n \<noteq> []) (map seg_Name path) = []"
  proof -
    have "mset (filter (\<lambda>n. n \<noteq> []) (map seg_Name (sortSlice path)))
          = mset (filter (\<lambda>n. n \<noteq> []) (map seg_Name path))"
      using b(1) by (metis mset_filter mset_map)
    with that have "filter (\<lambda>n. n \<noteq> []) (map seg_Name (sortSlice path)) = []" by simp
    then show ?thesis by (simp add: a spec_formatPath_def)
  qed
  from a b c d show ?thesis by blast
qed

theorem formatPath_sorted_names_witness:
  "sortsByOrder insertionSort
   \<and> mset [seg 1 ''work'', seg 3 [], seg 2 ''mail''] = mset [seg 2 ''mail'', seg 3 [], seg 1 ''work'']
   \<and> distinct (map seg_Order [seg 2 ''mail'', seg 3 [], seg 1 ''work''])
   \<and> fst (formatPath insertionSort [seg 1 ''work'', seg 3 [], seg 2 ''mail''])
       = fst (formatPath insertionSort [seg 2 ''mail'', seg 3 [], seg 1 ''work''])
   \<and> fst (formatPath insertionSort [seg 2 ''mail'', seg 3 [], seg 1 ''work'']) = ''work / mail''
   \<and> insertionSort [seg 2 ''mail'', seg 3 [], seg 1 ''work''] = [seg 1 ''work'', seg 2 ''mail'', seg 3 []]
   \<and> filter (\<lambda>n. n \<noteq> []) (map seg_Name [seg 1 []]) = []
   \<and> fst (formatPath insertionSort [seg 1 []]) = ''-''"
proof -
  let ?p = "[seg 2 ''mail'', seg 3 [], seg 1 ''work'']"
  let ?p' = "[seg 1 ''work'', seg 3 [], seg 2 ''mail'']"
  note t = formatPath_sorted_names [OF sortsByOrder_insertionSort, of ?p ?p']
  have h1: "mset ?p' = mset ?p" by (simp add: seg_def)
  have h2: "distinct (map seg_Order ?p)" by (simp add: seg_def)
  have s: "insertionSort ?p = [seg 1 ''work'', seg 2 ''mail'', seg 3 []]"
    by (simp add: insertionSort_def seg_def)
  have c1: "fst (formatPath insertionSort ?p') = fst (formatPath insertionSort ?p)"
    using t h1 h2 by blast
  have c2: "fst (formatPath insertionSort ?p) = ''work / mail''"
    using t s by (simp add: spec_formatPath_def seg_def)
  have h3: "filter (\<lambda>n. n \<noteq> []) (map seg_Name [seg 1 []]) = []" by (simp add: seg_def)
  have c3: "fst (formatPath insertionSort [seg 1 []]) = ''-''"
    using formatPath_sorted_names [OF sortsByOrder_insertionSort, of "[seg 1 []]"] h3 by blast
  from sortsByOrder_insertionSort h1 h2 c1 c2 s h3 c3 show ?thesis by (intro conjI)
qed

subsection \<open>The display line\<close>

lemma buildFzfLine_line:
  "fst (buildFzfLine f p) = ID p @ [tab] @ Join (columns f p) '' | ''"
  by (simp add: buildFzfLine_def columns_def Let_def split: prod.splits)

lemma buildFzfLine_record:
  "snd (buildFzfLine f p) = p\<lparr>Path := snd (formatPath f (Path p))\<rparr>"
  by (simp add: buildFzfLine_def Let_def split: prod.splits)

lemma formatPath_slice: "snd (formatPath f path) = (if path = [] then [] else f path)"
  by (simp add: formatPath_def Let_def)

lemma SplitN_tab_2_line:
  "tab \<notin> set a \<Longrightarrow> SplitN_tab_2 (a @ [tab] @ b) = [a, b]"
proof -
  assume a: "tab \<notin> set a"
  then have "takeWhile (\<lambda>c. c \<noteq> tab) (a @ tab # b) = a"
    by (induction a) auto
  moreover from a have "dropWhile (\<lambda>c. c \<noteq> tab) (a @ tab # b) = tab # b"
    by (induction a) auto
  ultimately show ?thesis by (simp add: SplitN_tab_2_def)
qed

text \<open>
  C2, amended: when the identifier of a record contains no tab, splitting its display
  line at the first tab gives the identifier as the first part and the five columns as
  the second.
\<close>

theorem buildFzfLine_split:
  assumes "tab \<notin> set (ID p)"
  shows "hd (SplitN_tab_2 (fst (buildFzfLine sortSlice p))) = ID p
         \<and> SplitN_tab_2 (fst (buildFzfLine sortSlice p)) = [ID p, Join (columns sortSlice p) '' | '']"
proof -
  have "SplitN_tab_2 (fst (buildFzfLine sortSlice p)) = [ID p, Join (columns sortSlice p) '' | '']"
    unfolding buildFzfLine_line by (rule SplitN_tab_2_line [OF assms])
  then show ?thesis by simp
qed

theorem buildFzfLine_split_witness:
  "tab \<notin> set (ID (entry ''65f1c0a2'' ''mail'' []))
   \<and> hd (SplitN_tab_2 (fst (buildFzfLine insertionSort (entry ''65f1c0a2'' ''mail'' [])))) = ''65f1c0a2''"
proof -
  have h: "tab \<notin> set (ID (entry ''65f1c0a2'' ''mail'' []))" by (simp add: entry_def tab_def)
  from buildFzfLine_split [OF h, of insertionSort] h show ?thesis by (simp add: entry_def)
qed

text \<open>
  C2 as stated fails for an identifier that contains a tab: the first part of the line
  is only the identifier's text before its own tab.
\<close>

theorem buildFzfLine_split_counterexample:
  "hd (SplitN_tab_2 (fst (buildFzfLine insertionSort (entry (''a'' @ [tab] @ ''b'') ''mail'' []))))
     = ''a''
   \<and> ID (entry (''a'' @ [tab] @ ''b'') ''mail'' []) \<noteq> ''a''"
  by (simp add: line_eval trim_eval SplitN_tab_2_def)









text \<open>
  C9: formatting a record changes nothing of it but the order of its path segments, which
  end up sorted by their order field; a record whose path is already in strictly
  ascending order is left exactly as it was. The formatter takes no part of the world and
  yields no event.
\<close>

theorem buildFzfLine_frame:
  assumes "sortsByOrder sortSlice"
  shows "(snd (buildFzfLine sortSlice p))\<lparr>Path := Path p\<rparr> = p
         \<and> mset (Path (snd (buildFzfLine sortSlice p))) = mset (Path p)
         \<and> sorted (map seg_Order (Path (snd (buildFzfLine sortSlice p))))
         \<and> (sorted (map seg_Order (Path p)) \<and> distinct (map seg_Order (Path p))
              \<longrightarrow> snd (buildFzfLine sortSlice p) = p)"
proof -
  let ?q = "snd (formatPath sortSlice (Path p))"
  have q: "?q = sortSlice (Path p)"
    using assms by (simp add: formatPath_slice sortsByOrder_Nil)
  have m: "mset ?q = mset (Path p)" and s: "sorted (map seg_Order ?q)"
    using assms by (simp_all add: q sortsByOrder_def)
  have same: "?q = Path p" if so: "sorted (map seg_Order (Path p))" and d: "distinct (map seg_Order (Path p))"
  proof (rule map_sorted_distinct_set_unique [where f = seg_Order])
    have st: "set ?q = set (Path p)" using m by (metis set_mset_mset)
    from d have "inj_on seg_Order (set (Path p))" by (simp add: distinct_map)
    then show "inj_on seg_Order (set ?q \<union> set (Path p))" using st by simp
    show "sorted (map seg_Order ?q)" by (rule s)
    have "mset (map seg_Order ?q) = mset (map seg_Order (Path p))" using m by (metis mset_map)
    then show "distinct (map seg_Order ?q)" using d by (metis mset_eq_imp_distinct_iff)
    show "sorted (map seg_Order (Path p))" "distinct (map seg_Order (Path p))" by (rule so, rule d)
    show "set ?q = set (Path p)" by (rule st)
  qed
  show ?thesis using m s same by (simp add: buildFzfLine_record)
qed

theorem buildFzfLine_frame_witness:
  "sortsByOrder insertionSort
   \<and> sorted (map seg_Order [seg 1 ''work'', seg 2 ''mail''])
   \<and> distinct (map seg_Order [seg 1 ''work'', seg 2 ''mail''])
   \<and> snd (buildFzfLine insertionSort ((entry ''7'' ''n'' [])\<lparr>Path := [seg 1 ''work'', seg 2 ''mail'']\<rparr>))
       = (entry ''7'' ''n'' [])\<lparr>Path := [seg 1 ''work'', seg 2 ''mail'']\<rparr>
   \<and> snd (buildFzfLine insertionSort ((entry ''7'' ''n'' [])\<lparr>Path := [seg 2 ''mail'', seg 1 ''work'']\<rparr>))
       = (entry ''7'' ''n'' [])\<lparr>Path := [seg 1 ''work'', seg 2 ''mail'']\<rparr>"
proof -
  let ?p = "(entry ''7'' ''n'' [])\<lparr>Path := [seg 1 ''work'', seg 2 ''mail'']\<rparr>"
  have h1: "sorted (map seg_Order [seg 1 ''work'', seg 2 ''mail''])"
    and h2: "distinct (map seg_Order [seg 1 ''work'', seg 2 ''mail''])"
    by (simp_all add: seg_def)
  have c1: "snd (buildFzfLine insertionSort ?p) = ?p"
    using buildFzfLine_frame [OF sortsByOrder_insertionSort, of ?p] h1 h2 by simp
  have c2: "snd (buildFzfLine insertionSort ((entry ''7'' ''n'' [])\<lparr>Path := [seg 2 ''mail'', seg 1 ''work'']\<rparr>))
       = ?p"
    by (simp add: line_eval)
  from sortsByOrder_insertionSort h1 h2 c1 c2 show ?thesis by (intro conjI)
qed

subsection \<open>Copying the secret\<close>

lemma copyToClipboard_events:
  "copyToClipboard w text =
     (if detectClipboardCommand w = [] then ([], Some ErrNoClipboardCommand)
      else ([ExecClipboard (detectClipboardCommand w) text],
            runClipboard w (detectClipboardCommand w) text))"
  by (simp add: copyToClipboard_def Let_def)

lemma main_copy_clipboard:
  "filter isClipboard (snd (main_copy w chosen)) =
     (if CryptedPassword chosen = [] \<or> detectClipboardCommand w = [] then []
      else [ExecClipboard (detectClipboardCommand w) (decodeB64OrRaw (CryptedPassword chosen))])"
  by (auto simp: main_copy_def copyToClipboard_events decodeB64OrRaw_def isClipboard_def Let_def
      split: sum.splits option.splits)

lemma main_copy_no_request: "filter isRequest (snd (main_copy w chosen)) = []"
  by (auto simp: main_copy_def copyToClipboard_events isRequest_def Let_def
      split: sum.splits option.splits)

text \<open>
  C1: an empty secret ends the run with exit code 1 and no clipboard process; otherwise
  the clipboard process, when there is a clipboard command, is given the decoded secret,
  or the secret as it stands after a warning when it does not decode, and the run goes
  on to its normal end; the secret \<^verbatim>\<open>aGVsbG8=\<close> is delivered as \<^verbatim>\<open>hello\<close>.
\<close>

theorem main_copy_secret:
  "(CryptedPassword chosen = [] \<longrightarrow> main_copy w chosen = (1, [Stderr MsgEmptyCryptedPassword]))
   \<and> (CryptedPassword chosen \<noteq> [] \<and> detectClipboardCommand w \<noteq> [] \<longrightarrow>
        filter isClipboard (snd (main_copy w chosen))
          = [ExecClipboard (detectClipboardCommand w) (decodeB64OrRaw (CryptedPassword chosen))])
   \<and> (CryptedPassword chosen \<noteq> [] \<and> DecodeString (CryptedPassword chosen) = Inr decoded \<longrightarrow>
        decodeB64OrRaw (CryptedPassword chosen) = decoded
        \<and> filter isStderr (snd (main_copy w chosen))
            = (case snd (copyToClipboard w decoded) of
                 None \<Rightarrow> [] | Some e \<Rightarrow> [Stderr (MsgClipboardError e)]))
   \<and> (CryptedPassword chosen \<noteq> [] \<and> DecodeString (CryptedPassword chosen) = Inl err \<longrightarrow>
        decodeB64OrRaw (CryptedPassword chosen) = CryptedPassword chosen
        \<and> hd (snd (main_copy w chosen)) = Stderr (MsgWarningCannotDecode err)
        \<and> (detectClipboardCommand w \<noteq> []
             \<and> runClipboard w (detectClipboardCommand w) (CryptedPassword chosen) = None \<longrightarrow>
            main_copy w chosen
              = (0, [Stderr (MsgWarningCannotDecode err),
                     ExecClipboard (detectClipboardCommand w) (CryptedPassword chosen),
                     Stdout (MsgCopied (Name chosen))])))
   \<and> (CryptedPassword chosen = ''aGVsbG8='' \<and> detectClipboardCommand w \<noteq> [] \<longrightarrow>
        filter isClipboard (snd (main_copy w chosen))
          = [ExecClipboard (detectClipboardCommand w) ''hello''])"
proof -
  have hello: "decodeB64OrRaw ''aGVsbG8='' = ''hello''" by (simp add: b64_eval)
  have a: "CryptedPassword chosen = [] \<longrightarrow> main_copy w chosen = (1, [Stderr MsgEmptyCryptedPassword])"
    by (simp add: main_copy_def)
  have b: "CryptedPassword chosen \<noteq> [] \<and> detectClipboardCommand w \<noteq> [] \<longrightarrow>
        filter isClipboard (snd (main_copy w chosen))
          = [ExecClipboard (detectClipboardCommand w) (decodeB64OrRaw (CryptedPassword chosen))]"
    by (simp add: main_copy_clipboard)
  have c: "CryptedPassword chosen \<noteq> [] \<and> DecodeString (CryptedPassword chosen) = Inr decoded \<longrightarrow>
        decodeB64OrRaw (CryptedPassword chosen) = decoded
        \<and> filter isStderr (snd (main_copy w chosen))
            = (case snd (copyToClipboard w decoded) of
                 None \<Rightarrow> [] | Some e \<Rightarrow> [Stderr (MsgClipboardError e)])"
    by (auto simp: main_copy_def copyToClipboard_events decodeB64OrRaw_def isStderr_def Let_def
        split: option.splits)
  have d: "CryptedPassword chosen \<noteq> [] \<and> DecodeString (CryptedPassword chosen) = Inl err \<longrightarrow>
        decodeB64OrRaw (CryptedPassword chosen) = CryptedPassword chosen
        \<and> hd (snd (main_copy w chosen)) = Stderr (MsgWarningCannotDecode err)
        \<and> (detectClipboardCommand w \<noteq> []
             \<and> runClipboard w (detectClipboardCommand w) (CryptedPassword chosen) = None \<longrightarrow>
            main_copy w chosen
              = (0, [Stderr (MsgWarningCannotDecode err),
                     ExecClipboard (detectClipboardCommand w) (CryptedPassword chosen),
                     Stdout (MsgCopied (Name chosen))]))"
    by (auto simp: main_copy_def copyToClipboard_events decodeB64OrRaw_def Let_def
        split: option.splits)
  have e: "CryptedPassword chosen = ''aGVsbG8='' \<and> detectClipboardCommand w \<noteq> [] \<longrightarrow>
        filter isClipboard (snd (main_copy w chosen))
          = [ExecClipboard (detectClipboardCommand w) ''hello'']"
    using hello by (simp add: main_copy_clipboard)
  from a b c d e show ?thesis by (intro conjI)
qed

lemma world0_clipboard:
  "detectClipboardCommand world0 = [''pbcopy'']"
  "runClipboard world0 c t = None"
  by (simp_all add: world0_def detectClipboardCommand_def)

theorem main_copy_secret_witness:
  "CryptedPassword (entry ''b2'' ''GitHub'' ''aGVsbG8='') = ''aGVsbG8=''
   \<and> detectClipboardCommand world0 = [''pbcopy'']
   \<and> filter isClipboard (snd (main_copy world0 (entry ''b2'' ''GitHub'' ''aGVsbG8='')))
       = [ExecClipboard [''pbcopy''] ''hello'']
   \<and> main_copy world0 (entry ''b2'' ''GitHub'' []) = (1, [Stderr MsgEmptyCryptedPassword])
   \<and> DecodeString ''pa$$'' = Inl CorruptInputError
   \<and> main_copy world0 (entry ''b2'' ''GitHub'' ''pa$$'')
       = (0, [Stderr (MsgWarningCannotDecode CorruptInputError),
              ExecClipboard [''pbcopy''] ''pa$$'', Stdout (MsgCopied ''GitHub'')])"
proof -
  have s1: "CryptedPassword (entry ''b2'' ''GitHub'' ''aGVsbG8='') = ''aGVsbG8=''"
    and s2: "CryptedPassword (entry ''b2'' ''GitHub'' []) = []"
    and s3: "CryptedPassword (entry ''b2'' ''GitHub'' ''pa$$'') = ''pa$$''"
    and n: "Name (entry ''b2'' ''GitHub'' ''pa$$'') = ''GitHub''"
    by (simp_all add: entry_def)
  have d: "DecodeString ''pa$$'' = Inl CorruptInputError" by (simp add: b64_eval)
  have nz: "detectClipboardCommand world0 \<noteq> []" by (simp add: world0_clipboard)
  have "filter isClipboard (snd (main_copy world0 (entry ''b2'' ''GitHub'' ''aGVsbG8='')))
       = [ExecClipboard (detectClipboardCommand world0) ''hello'']"
    using main_copy_secret [of "entry ''b2'' ''GitHub'' ''aGVsbG8=''" world0] s1 nz by blast
  then have c1: "filter isClipboard (snd (main_copy world0 (entry ''b2'' ''GitHub'' ''aGVsbG8='')))
       = [ExecClipboard [''pbcopy''] ''hello'']"
    by (simp only: world0_clipboard)
  have c2: "main_copy world0 (entry ''b2'' ''GitHub'' []) = (1, [Stderr MsgEmptyCryptedPassword])"
    using main_copy_secret [of "entry ''b2'' ''GitHub'' []" world0] s2 by simp
  have r: "runClipboard world0 (detectClipboardCommand world0) (CryptedPassword (entry ''b2'' ''GitHub'' ''pa$$'')) = None"
    by (rule world0_clipboard)
  have ne: "CryptedPassword (entry ''b2'' ''GitHub'' ''pa$$'') \<noteq> []" by (simp add: s3)
  have dd: "DecodeString (CryptedPassword (entry ''b2'' ''GitHub'' ''pa$$'')) = Inl CorruptInputError"
    by (simp only: s3 d)
  have "main_copy world0 (entry ''b2'' ''GitHub'' ''pa$$'')
       = (0, [Stderr (MsgWarningCannotDecode CorruptInputError),
              ExecClipboard (detectClipboardCommand world0) (CryptedPassword (entry ''b2'' ''GitHub'' ''pa$$'')),
              Stdout (MsgCopied (Name (entry ''b2'' ''GitHub'' ''pa$$'')))])"
    using main_copy_secret [of "entry ''b2'' ''GitHub'' ''pa$$''" world0 _ CorruptInputError] ne dd nz r
    by blast
  then have c3: "main_copy world0 (entry ''b2'' ''GitHub'' ''pa$$'')
       = (0, [Stderr (MsgWarningCannotDecode CorruptInputError),
              ExecClipboard [''pbcopy''] ''pa$$'', Stdout (MsgCopied ''GitHub'')])"
    by (simp only: world0_clipboard s3 n)
  from s1 world0_clipboard(1) c1 c2 d c3 show ?thesis by (intro conjI)
qed


subsection \<open>The selection\<close>

lemma runFzf_events:
  "runFzf w lines =
     ([ExecSelector (fzfCommand w) (Join lines [CHR 0x0A])],
      case runSelector w (fzfCommand w) (Join lines [CHR 0x0A]) of
        Inl err \<Rightarrow> Inl err | Inr out \<Rightarrow> Inr (TrimSpace out))"
  by (simp add: runFzf_def fzfCommand_def Let_def split: sum.splits)

lemma main_lines_unfold:
  "details \<noteq> [] \<Longrightarrow>
   main_lines f w details =
     (case runSelector w (fzfCommand w) (fzfInput f details) of
        Inl err \<Rightarrow> (1, [ExecSelector (fzfCommand w) (fzfInput f details), Stderr (MsgFzfError err)])
      | Inr out \<Rightarrow>
          after [ExecSelector (fzfCommand w) (fzfInput f details)]
            (main_select w (map (\<lambda>d. snd (buildFzfLine f d)) details) (TrimSpace out)))"
  by (simp add: main_lines_def runFzf_events fzfInput_def Let_def comp_def split: sum.splits)






lemma find_first_index:
  "find P xs = Some x \<Longrightarrow> \<exists>i < length xs. xs ! i = x \<and> P x \<and> (\<forall>j < i. \<not> P (xs ! j))"
  by (auto simp: find_Some_iff)

lemma find_map_snd_buildFzfLine:
  "find (\<lambda>d. ID d = ident) (map (\<lambda>d. snd (buildFzfLine f d)) details)
     = map_option (\<lambda>d. snd (buildFzfLine f d)) (find (\<lambda>d. ID d = ident) details)"
  by (induction details) (simp_all add: buildFzfLine_record)

lemma main_select_no_request: "filter isRequest (snd (main_select w details selected)) = []"
  by (auto simp: main_select_def main_copy_no_request isRequest_def split: list.splits option.splits)

lemma takeWhile_all_conv: "(xs = takeWhile P xs) = (\<forall>x \<in> set xs. P x)"
  by (metis takeWhile_eq_all_conv)

lemma SplitN_tab_2_first:
  "SplitN_tab_2 s = takeWhile (\<lambda>c. c \<noteq> tab) s # (if tab \<in> set s then [tl (dropWhile (\<lambda>c. c \<noteq> tab) s)] else [])"
  by (auto simp: SplitN_tab_2_def takeWhile_all_conv)

text \<open>
  C10: after a non-empty selection no request is sent; the text before the first tab of
  the selection is compared with the identifiers of the fetched records; without a match
  the run ends with exit code 1, otherwise the first record in fetch order with that
  identifier is the one handed to the copy step, and its secret is what the clipboard
  process receives.
\<close>

theorem main_lines_chosen:
  assumes "details \<noteq> []"
    and "runSelector w (fzfCommand w) (fzfInput sortSlice details) = Inr out"
    and "TrimSpace out \<noteq> []"
  shows "filter isRequest (snd (main_lines sortSlice w details)) = []
         \<and> (find (\<lambda>d. ID d = takeWhile (\<lambda>c. c \<noteq> tab) (TrimSpace out)) details = None \<longrightarrow>
              main_lines sortSlice w details
                = (1, [ExecSelector (fzfCommand w) (fzfInput sortSlice details),
                       Stderr (MsgCouldNotFind (takeWhile (\<lambda>c. c \<noteq> tab) (TrimSpace out)))]))
         \<and> (find (\<lambda>d. ID d = takeWhile (\<lambda>c. c \<noteq> tab) (TrimSpace out)) details = Some chosen \<longrightarrow>
              (\<exists>i < length details. details ! i = chosen
                 \<and> ID chosen = takeWhile (\<lambda>c. c \<noteq> tab) (TrimSpace out)
                 \<and> (\<forall>j < i. ID (details ! j) \<noteq> takeWhile (\<lambda>c. c \<noteq> tab) (TrimSpace out)))
              \<and> main_lines sortSlice w details
                  = after [ExecSelector (fzfCommand w) (fzfInput sortSlice details)]
                      (main_copy w (snd (buildFzfLine sortSlice chosen)))
              \<and> filter isClipboard (snd (main_lines sortSlice w details))
                  = (if CryptedPassword chosen = [] \<or> detectClipboardCommand w = [] then []
                     else [ExecClipboard (detectClipboardCommand w)
                             (decodeB64OrRaw (CryptedPassword chosen))]))"
proof -
  let ?ident = "takeWhile (\<lambda>c. c \<noteq> tab) (TrimSpace out)"
  let ?sel = "ExecSelector (fzfCommand w) (fzfInput sortSlice details)"
  let ?details' = "map (\<lambda>d. snd (buildFzfLine sortSlice d)) details"
  have m: "main_lines sortSlice w details = after [?sel] (main_select w ?details' (TrimSpace out))"
    using assms by (simp add: main_lines_unfold)
  have s: "main_select w ?details' (TrimSpace out) =
      (case find (\<lambda>d. ID d = ?ident) details of
         None \<Rightarrow> (1, [Stderr (MsgCouldNotFind ?ident)])
       | Some d \<Rightarrow> main_copy w (snd (buildFzfLine sortSlice d)))"
    using assms(3)
    by (simp add: main_select_def SplitN_tab_2_first find_map_snd_buildFzfLine split: option.splits)
  have a: "filter isRequest (snd (main_lines sortSlice w details)) = []"
    by (simp add: m after_def main_select_no_request isRequest_def)
  have b: "find (\<lambda>d. ID d = ?ident) details = None \<longrightarrow>
      main_lines sortSlice w details = (1, [?sel, Stderr (MsgCouldNotFind ?ident)])"
    by (simp add: m s after_def)
  have c: "(\<exists>i < length details. details ! i = chosen \<and> ID chosen = ?ident
                 \<and> (\<forall>j < i. ID (details ! j) \<noteq> ?ident))
              \<and> main_lines sortSlice w details = after [?sel] (main_copy w (snd (buildFzfLine sortSlice chosen)))
              \<and> filter isClipboard (snd (main_lines sortSlice w details))
                  = (if CryptedPassword chosen = [] \<or> detectClipboardCommand w = [] then []
                     else [ExecClipboard (detectClipboardCommand w)
                             (decodeB64OrRaw (CryptedPassword chosen))])"
    if f: "find (\<lambda>d. ID d = ?ident) details = Some chosen"
  proof -
    from find_first_index [OF f]
    have i: "\<exists>i < length details. details ! i = chosen \<and> ID chosen = ?ident
                 \<and> (\<forall>j < i. ID (details ! j) \<noteq> ?ident)" by blast
    have ml: "main_lines sortSlice w details = after [?sel] (main_copy w (snd (buildFzfLine sortSlice chosen)))"
      by (simp add: m s f)
    have "filter isClipboard (snd (main_lines sortSlice w details))
            = filter isClipboard (snd (main_copy w (snd (buildFzfLine sortSlice chosen))))"
      by (simp add: ml after_def isClipboard_def)
    also have "\<dots> = (if CryptedPassword chosen = [] \<or> detectClipboardCommand w = [] then []
                     else [ExecClipboard (detectClipboardCommand w)
                             (decodeB64OrRaw (CryptedPassword chosen))])"
      by (simp add: main_copy_clipboard buildFzfLine_record)
    finally show ?thesis using i ml by blast
  qed
  from a b c show ?thesis by blast
qed

theorem main_lines_chosen_witness:
  "twins \<noteq> []
   \<and> runSelector world_pick_second (fzfCommand world_pick_second) (fzfInput insertionSort twins)
       = Inr (''b2'' @ [tab] @ ''second | - |  |  | '' @ [CHR 0x0A])
   \<and> TrimSpace (''b2'' @ [tab] @ ''second | - |  |  | '' @ [CHR 0x0A]) = ''b2'' @ [tab] @ ''second | - |  |  |''
   \<and> find (\<lambda>d. ID d = ''b2'') twins = Some (entry ''b2'' ''first'' ''aGVsbG8='')
   \<and> filter isRequest (snd (main_lines insertionSort world_pick_second twins)) = []
   \<and> filter isClipboard (snd (main_lines insertionSort world_pick_second twins))
       = [ExecClipboard [''pbcopy''] ''hello'']
   \<and> find (\<lambda>d. ID d = ''b2'') [entry ''a1'' ''other'' ''eA==''] = None
   \<and> main_lines insertionSort world_pick_second [entry ''a1'' ''other'' ''eA=='']
       = (1, [ExecSelector (fzfCommand world0) (''a1'' @ [tab] @ ''other | - |  |  | ''),
              Stderr (MsgCouldNotFind ''b2'')])"
proof -
  let ?out = "''b2'' @ [tab] @ ''second | - |  |  | '' @ [CHR 0x0A]"
  let ?first = "entry ''b2'' ''first'' ''aGVsbG8=''"
  have ne: "twins \<noteq> []" by (simp add: twins_def)
  have r: "runSelector world_pick_second (fzfCommand world_pick_second) (fzfInput insertionSort twins) = Inr ?out"
    by (simp add: world_pick_second_def world0_def)
  have t: "TrimSpace ?out = ''b2'' @ [tab] @ ''second | - |  |  |''"
    by (simp add: trim_eval tab_def)
  then have tn: "TrimSpace ?out \<noteq> []" by simp
  have i: "takeWhile (\<lambda>c. c \<noteq> tab) (TrimSpace ?out) = ''b2''"
    by (simp only: t) (simp add: tab_def)
  have f: "find (\<lambda>d. ID d = ''b2'') twins = Some ?first"
    by (simp add: twins_def entry_def)
  then have f': "find (\<lambda>d. ID d = takeWhile (\<lambda>c. c \<noteq> tab) (TrimSpace ?out)) twins = Some ?first"
    by (simp only: i)
  have cl: "detectClipboardCommand world_pick_second = [''pbcopy'']"
    by (simp add: world_pick_second_def world0_def detectClipboardCommand_def)
  have s: "CryptedPassword ?first = ''aGVsbG8=''" by (simp add: entry_def)
  have hello: "decodeB64OrRaw ''aGVsbG8='' = ''hello''" by (simp add: b64_eval)
  note m = main_lines_chosen [OF ne r tn, of ?first]
  have c1: "filter isRequest (snd (main_lines insertionSort world_pick_second twins)) = []"
    using m by blast
  have "filter isClipboard (snd (main_lines insertionSort world_pick_second twins))
          = (if CryptedPassword ?first = [] \<or> detectClipboardCommand world_pick_second = [] then []
             else [ExecClipboard (detectClipboardCommand world_pick_second)
                     (decodeB64OrRaw (CryptedPassword ?first))])"
    using m f' by blast
  then have c2: "filter isClipboard (snd (main_lines insertionSort world_pick_second twins))
       = [ExecClipboard [''pbcopy''] ''hello'']"
    by (simp add: cl s hello)
  let ?ds = "[entry ''a1'' ''other'' ''eA=='']"
  have ne': "?ds \<noteq> []" by simp
  have r': "runSelector world_pick_second (fzfCommand world_pick_second) (fzfInput insertionSort ?ds) = Inr ?out"
    by (simp add: world_pick_second_def world0_def)
  have g: "find (\<lambda>d. ID d = ''b2'') ?ds = None" by (simp add: entry_def)
  then have g': "find (\<lambda>d. ID d = takeWhile (\<lambda>c. c \<noteq> tab) (TrimSpace ?out)) ?ds = None"
    by (simp only: i)
  have fz: "fzfCommand world_pick_second = fzfCommand world0"
    by (simp add: fzfCommand_def world_pick_second_def)
  have "fst (buildFzfLine insertionSort (entry ''a1'' ''other'' ''eA=='')) = ''a1'' @ [tab] @ ''other | - |  |  | ''"
    by (simp add: line_eval trim_eval)
  then have inp: "fzfInput insertionSort ?ds = ''a1'' @ [tab] @ ''other | - |  |  | ''"
    by (simp add: fzfInput_def)
  have "main_lines insertionSort world_pick_second ?ds
      = (1, [ExecSelector (fzfCommand world_pick_second) (fzfInput insertionSort ?ds),
             Stderr (MsgCouldNotFind (takeWhile (\<lambda>c. c \<noteq> tab) (TrimSpace ?out)))])"
    using main_lines_chosen [OF ne' r' tn] g' by blast
  then have c3: "main_lines insertionSort world_pick_second ?ds
       = (1, [ExecSelector (fzfCommand world0) (''a1'' @ [tab] @ ''other | - |  |  | ''),
              Stderr (MsgCouldNotFind ''b2'')])"
    by (simp only: i fz inp)
  from ne r t f c1 c2 g c3 show ?thesis by (intro conjI)
qed



subsection \<open>Fetching the details\<close>










lemma main_fetch_unfold:
  "hits \<noteq> [] \<Longrightarrow>
   main_fetch f w cfg token query hits =
     after (fst (fetchDetails w cfg token 0 hits)) (main_lines f w (snd (fetchDetails w cfg token 0 hits)))"
  by (simp add: main_fetch_def split: prod.splits)








subsection \<open>The whole run\<close>

lemma main_after_search:
  assumes "Getenv w ''PASSWORK_BASE_URL'' \<noteq> []"
    and "login w (mainConfig w) = (ev1, Inr token)"
    and "searchPasswords w (mainConfig w) token (mainQuery w) = (ev2, Inr hits)"
  shows "main f w = after (ev1 @ ev2) (main_fetch f w (mainConfig w) token (mainQuery w) hits)"
  using assms by (simp add: main_def mainConfig_def mainQuery_def Let_def)

text \<open>The sample run from start to end.\<close>

lemma record_b2: "snd (buildFzfLine insertionSort (entry ''b2'' ''GitHub'' ''aGVsbG8='')) = entry ''b2'' ''GitHub'' ''aGVsbG8=''"
  by (simp add: buildFzfLine_record formatPath_slice entry_def)

lemma copy0: "main_copy world0 (entry ''b2'' ''GitHub'' ''aGVsbG8='') =
   (0, [ExecClipboard [''pbcopy''] ''hello'', Stdout (MsgCopied ''GitHub'')])"
proof -
  have d: "DecodeString ''aGVsbG8='' = Inr ''hello''" by (simp add: b64_eval)
  show ?thesis
    by (simp add: main_copy_def copyToClipboard_events world0_clipboard entry_def d)
qed

lemma select_b2: "main_select world0 [entry ''b2'' ''GitHub'' ''aGVsbG8=''] (''b2'' @ [tab] @ ''GitHub | - |  |  |'')
  = main_copy world0 (entry ''b2'' ''GitHub'' ''aGVsbG8='')"
  by (simp add: main_select_def SplitN_tab_2_first tab_def) (simp add: entry_def)

lemma lines0: "main_lines insertionSort world0 [entry ''b2'' ''GitHub'' ''aGVsbG8=''] =
  (0, [ExecSelector (fzfCommand world0) (''b2'' @ [tab] @ ''GitHub | - |  |  | ''),
       ExecClipboard [''pbcopy''] ''hello'', Stdout (MsgCopied ''GitHub'')])"
proof -
  have "main_lines insertionSort world0 [entry ''b2'' ''GitHub'' ''aGVsbG8=''] =
     after [ExecSelector (fzfCommand world0) (''b2'' @ [tab] @ ''GitHub | - |  |  | '')]
       (main_select world0 [entry ''b2'' ''GitHub'' ''aGVsbG8='']
          (TrimSpace ((''b2'' @ [tab] @ ''GitHub | - |  |  | '') @ [CHR 0x0A])))"
    by (simp only: main_lines_unfold [of "[entry ''b2'' ''GitHub'' ''aGVsbG8='']", simplified]
        input_b2 select0 sum.case list.map record_b2)
  from this [unfolded trim_line select_b2 copy0] show ?thesis by (simp add: after_def)
qed

lemma main_example_run:
  "main insertionSort world0 =
     (0, [Request ''POST'' ''https://vault.test/api/auth/login/key'',
          Request ''POST'' ''https://vault.test/api/passwords/search'',
          Request ''GET'' ''https://vault.test/api/passwords/a1'',
          Stderr (MsgWarningSkip ''a1'' (ErrRequest ''timeout'')),
          Request ''GET'' ''https://vault.test/api/passwords/b2'',
          ExecSelector (fzfCommand world0) (''b2'' @ [tab] @ ''GitHub | - |  |  | ''),
          ExecClipboard [''pbcopy''] ''hello'',
          Stdout (MsgCopied ''GitHub'')])"
proof -
  have b: "Getenv world0 ''PASSWORK_BASE_URL'' \<noteq> []" by (simp add: world0_def)
  have h: "hits0 \<noteq> []" by (simp add: hits0_def)
  have s: "searchPasswords world0 (mainConfig world0) ''t0'' (mainQuery world0)
      = ([Request ''POST'' ''https://vault.test/api/passwords/search''], Inr hits0)"
    by (simp only: query0 search0)
  show ?thesis
    by (simp only: main_after_search [OF b login0 s] query0 main_fetch_unfold [OF h] fetch0
        lines0 after_def fst_conv snd_conv append.simps)
qed

end
